theory Spec2Isabelle
  imports Complex_Main "HOL-Library.AList"
begin

section \<open>Camera manager: detections, zones and the shared detection store\<close>

text \<open>
  Source: \<^verbatim>\<open>src/src/cameras/camera_manager.py\<close>.

  Numbers that are Python floats in the source (confidences, pixel coordinates,
  averages) are modelled as exact rationals: comparisons and the midpoint
  \<^verbatim>\<open>(x1 + x2) / 2\<close> are then the mathematical ones. Counts are Python's unbounded
  integers, \<^typ>\<open>int\<close>. A wall-clock reading \<^verbatim>\<open>datetime.now()\<close> is the next value of a
  clock \<open>clk\<close>, a function from the number of readings made so far to a time.
\<close>

type_synonym datetime = nat
type_synonym clock = "nat \<Rightarrow> datetime"

text \<open>One box of a YOLO result: \<^verbatim>\<open>box.cls[0]\<close>, \<^verbatim>\<open>box.conf[0]\<close>, \<^verbatim>\<open>box.xyxy[0]\<close>.\<close>

record box =
  box_cls :: int
  box_conf :: rat
  box_xyxy :: "rat \<times> rat \<times> rat \<times> rat"

text \<open>One YOLO result: \<^verbatim>\<open>result.boxes\<close>, which may be \<^verbatim>\<open>None\<close>.\<close>

record yolo_result =
  boxes :: "box list option"

text \<open>A zone of the camera configuration: a dict with the keys
  \<^verbatim>\<open>name\<close>, \<^verbatim>\<open>x\<close>, \<^verbatim>\<open>y\<close>, \<^verbatim>\<open>width\<close>, \<^verbatim>\<open>height\<close>.\<close>

record zone =
  zone_name :: string
  zone_x :: rat
  zone_y :: rat
  zone_width :: rat
  zone_height :: rat

text \<open>The camera configuration entry; \<^verbatim>\<open>config.get('queue_zones', [])\<close> reads it.\<close>

record camera_cfg =
  queue_zones :: "zone list option"

text \<open>The detection dicts appended by the workers. The parking worker writes neither
  \<^verbatim>\<open>center\<close> nor \<^verbatim>\<open>zone\<close>, the gate and kitchen workers write no \<^verbatim>\<open>zone\<close>.\<close>

record detection =
  class_id :: int
  confidence :: rat
  bbox :: "rat list"
  center :: "rat list option"
  zone :: "string option"
  det_timestamp :: datetime

record parking_snapshot =
  vehicle_count :: int
  parking_detections :: "detection list"
  parking_timestamp :: datetime

record gate_snapshot =
  person_count :: int
  gate_detections :: "detection list"
  gate_timestamp :: datetime

record queue_snapshot =
  queue_length :: int
  detections :: "detection list"
  queue_timestamp :: datetime

record kitchen_snapshot =
  staff_count :: int
  hand_washing_detected :: bool
  kitchen_detections :: "detection list"
  kitchen_timestamp :: datetime

text \<open>A value of \<^verbatim>\<open>self.detection_data\<close>: the empty list \<^verbatim>\<open>[]\<close> that
  \<^verbatim>\<open>__init__\<close> stores under each of the four keys, or the dict a worker assigns.\<close>

datatype entry =
  EmptyList
| Parking parking_snapshot
| Gate gate_snapshot
| Queue queue_snapshot
| Kitchen kitchen_snapshot

text \<open>\<^verbatim>\<open>self.detection_data\<close> is a dict: its items in insertion order, one per key.\<close>

type_synonym detection_data = "(string \<times> entry) list"

text \<open>\<^verbatim>\<open>CameraManager.__init__\<close>, lines 33-38.\<close>

definition init_detection_data :: detection_data where
  "init_detection_data =
     [(''parking'', EmptyList), (''gate'', EmptyList),
      (''queue'', EmptyList), (''kitchen'', EmptyList)]"

text \<open>\<^verbatim>\<open>get_detection_data\<close>, lines 340-342: \<^verbatim>\<open>self.detection_data.copy()\<close>. The values
  are never mutated in place (each worker assigns a fresh dict to its key), so the copy
  holds the same items.\<close>

definition get_detection_data :: "detection_data \<Rightarrow> detection_data" where
  "get_detection_data dd = dd"

text \<open>The assignment \<^verbatim>\<open>self.detection_data[role] = {...}\<close> that ends each worker:
  the value of an existing key is replaced where it stands, a new key goes to the end.\<close>

definition publish :: "string \<Rightarrow> entry \<Rightarrow> detection_data \<Rightarrow> detection_data" where
  "publish role e dd = AList.update role e dd"

fun publish_all :: "(string \<times> entry) list \<Rightarrow> detection_data \<Rightarrow> detection_data" where
  "publish_all [] dd = dd"
| "publish_all ((role, e) # ps) dd = publish_all ps (publish role e dd)"

subsection \<open>The queue worker\<close>

text \<open>The membership test of lines 255-256, with its chained comparisons.\<close>

definition in_zone :: "zone \<Rightarrow> rat \<Rightarrow> rat \<Rightarrow> bool" where
  "in_zone z center_x center_y =
     (zone_x z \<le> center_x \<and> center_x \<le> zone_x z + zone_width z \<and>
      zone_y z \<le> center_y \<and> center_y \<le> zone_y z + zone_height z)"

text \<open>The loop \<^verbatim>\<open>for zone in queue_zones\<close> of lines 254-267: the zone at which the body
  runs and the loop breaks, or \<open>None\<close> when the loop runs to its end.\<close>

fun zone_scan :: "zone list \<Rightarrow> rat \<Rightarrow> rat \<Rightarrow> zone option" where
  "zone_scan [] center_x center_y = None"
| "zone_scan (z # zs) center_x center_y =
     (if in_zone z center_x center_y then Some z else zone_scan zs center_x center_y)"

text \<open>The zone name the scan tags a center point with (line 264).\<close>

definition classify :: "rat \<times> rat \<Rightarrow> zone list \<Rightarrow> string option" where
  "classify p zones = map_option zone_name (zone_scan zones (fst p) (snd p))"

text \<open>The local variables of \<^verbatim>\<open>process_queue_camera\<close> that the loops update, and the
  number of clock readings made.\<close>

record queue_acc =
  acc_queue_length :: int
  acc_detections :: "detection list"
  acc_ticks :: nat

text \<open>Lines 249-251: the midpoint of the bounding box.\<close>

definition center_of :: "box \<Rightarrow> rat \<times> rat" where
  "center_of b = (case box_xyxy b of (x1, y1, x2, y2) \<Rightarrow> ((x1 + x2) / 2, (y1 + y2) / 2))"

text \<open>The body of \<^verbatim>\<open>for box in boxes\<close>, lines 242-267.\<close>

definition process_box :: "clock \<Rightarrow> rat \<Rightarrow> zone list \<Rightarrow> queue_acc \<Rightarrow> box \<Rightarrow> queue_acc" where
  "process_box clk threshold zones acc b =
     (if box_cls b = 0 then
        if box_conf b \<ge> threshold then
          (case box_xyxy b of (x1, y1, x2, y2) \<Rightarrow>
             let center_x = (x1 + x2) / 2; center_y = (y1 + y2) / 2 in
             case zone_scan zones center_x center_y of
               None \<Rightarrow> acc
             | Some z \<Rightarrow>
                 acc\<lparr>acc_queue_length := acc_queue_length acc + 1,
                     acc_detections := acc_detections acc @
                       [\<lparr>class_id = box_cls b, confidence = box_conf b,
                         bbox = [x1, y1, x2, y2], center = Some [center_x, center_y],
                         zone = Some (zone_name z), det_timestamp = clk (acc_ticks acc)\<rparr>],
                     acc_ticks := Suc (acc_ticks acc)\<rparr>)
        else acc
      else acc)"

text \<open>The body of \<^verbatim>\<open>for result in results\<close>, lines 238-267.\<close>

definition process_result :: "clock \<Rightarrow> rat \<Rightarrow> zone list \<Rightarrow> queue_acc \<Rightarrow> yolo_result \<Rightarrow> queue_acc" where
  "process_result clk threshold zones acc r =
     (case boxes r of None \<Rightarrow> acc | Some bs \<Rightarrow> foldl (process_box clk threshold zones) acc bs)"

text \<open>The snapshot dict of lines 270-274, from the loops' final values. \<open>k\<close> is the
  number of clock readings made before the call.\<close>

definition queue_snapshot_of ::
  "clock \<Rightarrow> nat \<Rightarrow> rat \<Rightarrow> zone list \<Rightarrow> yolo_result list \<Rightarrow> queue_snapshot" where
  "queue_snapshot_of clk k threshold zones results =
     (let acc = foldl (process_result clk threshold zones)
                  \<lparr>acc_queue_length = 0, acc_detections = [], acc_ticks = k\<rparr> results
      in \<lparr>queue_length = acc_queue_length acc, detections = acc_detections acc,
          queue_timestamp = clk (acc_ticks acc)\<rparr>)"

text \<open>\<^verbatim>\<open>process_queue_camera\<close>, lines 226-277. \<open>inference\<close> is what
  \<^verbatim>\<open>self.yolo_model(frame, verbose=False)\<close> returns, \<open>None\<close> when the call raises (the
  model failed to load, or inference fails); \<open>camera_config camera_name\<close> is \<open>None\<close>
  when the lookup raises \<^verbatim>\<open>KeyError\<close>. Either exception is caught and logged, and
  nothing is published. \<open>threshold\<close> is
  \<^verbatim>\<open>self.model_config['person_detection']['confidence_threshold']\<close>.\<close>

definition process_queue_camera ::
  "clock \<Rightarrow> nat \<Rightarrow> yolo_result list option \<Rightarrow> (string \<rightharpoonup> camera_cfg) \<Rightarrow> string \<Rightarrow> rat
     \<Rightarrow> detection_data \<Rightarrow> detection_data" where
  "process_queue_camera clk k inference camera_config camera_name threshold dd =
     (case inference of
        None \<Rightarrow> dd
      | Some results \<Rightarrow>
          (case camera_config camera_name of
             None \<Rightarrow> dd
           | Some config \<Rightarrow>
               let zones = (case queue_zones config of None \<Rightarrow> [] | Some zs \<Rightarrow> zs) in
               publish ''queue'' (Queue (queue_snapshot_of clk k threshold zones results)) dd))"

text \<open>The boxes the worker visits, in order, and those for which the body of the zone
  loop runs: a person, confident enough, whose center lies in some zone.\<close>

definition all_boxes :: "yolo_result list \<Rightarrow> box list" where
  "all_boxes results = concat (map (\<lambda>r. case boxes r of None \<Rightarrow> [] | Some bs \<Rightarrow> bs) results)"

definition qualifies :: "rat \<Rightarrow> zone list \<Rightarrow> box \<Rightarrow> bool" where
  "qualifies threshold zones b =
     (box_cls b = 0 \<and> threshold \<le> box_conf b \<and> classify (center_of b) zones \<noteq> None)"

section \<open>KPI processor\<close>

text \<open>
  Source: \<^verbatim>\<open>src/src/analytics/kpi_processor.py\<close>.

  A time is a count of seconds; its \<^verbatim>\<open>hour\<close> attribute is the hour of the day.
\<close>

definition hour_of :: "datetime \<Rightarrow> nat" where
  "hour_of t = (t div 3600) mod 24"

subsection \<open>Bounded deques\<close>

text \<open>\<^verbatim>\<open>collections.deque(maxlen=n)\<close>: the bound travels with the object.
  \<^verbatim>\<open>append\<close> adds on the right and, when the bound is exceeded, removes the leftmost
  item.\<close>

record 'a deque =
  maxlen :: nat
  items :: "'a list"

definition deque_append :: "'a \<Rightarrow> 'a deque \<Rightarrow> 'a deque" where
  "deque_append x d =
     (let xs = items d @ [x] in
      d\<lparr>items := (if maxlen d < length xs then tl xs else xs)\<rparr>)"

subsection \<open>Numeric helpers\<close>

text \<open>\<^verbatim>\<open>np.mean\<close> of a list of integers, as an exact rational (the source guards the
  call so that the list is not empty).\<close>

definition mean :: "int list \<Rightarrow> rat" where
  "mean xs = of_int (sum_list xs) / of_nat (length xs)"

text \<open>Rounding to the nearest integer, a tie going to the even neighbour.\<close>

definition rint :: "rat \<Rightarrow> int" where
  "rint q =
     (let f = \<lfloor>q\<rfloor>; d = q - of_int f in
      if d < 1 / 2 then f else if 1 / 2 < d then f + 1 else if even f then f else f + 1)"

text \<open>\<^verbatim>\<open>round(v, 2)\<close> on a NumPy float: scale by 100, round to the nearest integer,
  scale back. On exact rationals this is rounding to two decimals.\<close>

definition round2 :: "rat \<Rightarrow> rat" where
  "round2 q = of_int (rint (q * 100)) / 100"

text \<open>\<^verbatim>\<open>str\<close> of an integer, as an f-string prints it.\<close>

fun str_nat :: "nat \<Rightarrow> string" where
  "str_nat n =
     (if n < 10 then [''0123456789'' ! n]
      else str_nat (n div 10) @ [''0123456789'' ! (n mod 10)])"

declare str_nat.simps [simp del]

definition str_int :: "int \<Rightarrow> string" where
  "str_int i = (if i < 0 then ''-'' @ str_nat (nat (- i)) else str_nat (nat i))"

subsection \<open>Hourly histograms\<close>

text \<open>A \<^verbatim>\<open>defaultdict(int)\<close> keyed by hour: its items in insertion order, one per key.
  Reading \<^verbatim>\<open>d[hour]\<close> of a missing hour inserts it with the value 0.\<close>

type_synonym histogram = "(nat \<times> int) list"

definition getitem_default :: "histogram \<Rightarrow> nat \<Rightarrow> int \<times> histogram" where
  "getitem_default d hour =
     (case map_of d hour of Some v \<Rightarrow> (v, d) | None \<Rightarrow> (0, d @ [(hour, 0)]))"

text \<open>The loop of Python's \<^verbatim>\<open>max(d, key=d.get)\<close> after its first item: the dict's keys
  are visited in iteration order, and the running maximum is replaced only by a key
  whose value is strictly greater. \<open>d.get\<close> of a key of \<open>d\<close> is the value of its
  item.\<close>

fun max_loop :: "nat \<times> int \<Rightarrow> histogram \<Rightarrow> nat" where
  "max_loop (maxitem, maxval) [] = maxitem"
| "max_loop (maxitem, maxval) ((item, val) # rest) =
     (if val > maxval then max_loop (item, val) rest else max_loop (maxitem, maxval) rest)"

text \<open>Lines 145-150 and 175-180: the new value of the peak-hour field. An empty
  histogram is falsy and leaves the field as it is.\<close>

definition peak_of :: "histogram \<Rightarrow> nat option \<Rightarrow> nat option" where
  "peak_of d previous = (case d of [] \<Rightarrow> previous | first # rest \<Rightarrow> Some (max_loop first rest))"

subsection \<open>The KPI state\<close>

record length_entry =
  entry_length :: int
  length_timestamp :: datetime

record count_entry =
  entry_count :: int
  count_timestamp :: datetime

record hour_entry =
  entry_hour :: nat
  entry_entries :: int
  hour_timestamp :: datetime

record alert =
  alert_type :: string
  message :: string
  severity :: string
  alert_timestamp :: datetime

text \<open>The five nested dicts of \<^verbatim>\<open>self.kpis\<close>, lines 25-63.\<close>

record customer_flow_dict =
  total_entries :: int
  total_exits :: int
  current_occupancy :: int
  hourly_entries :: histogram
  peak_hour :: "nat option"
  average_dwell_time :: int

record vehicle_metrics_dict =
  total_vehicles :: int
  current_vehicles :: int
  hourly_arrivals :: histogram
  peak_parking_hour :: "nat option"
  parking_utilization :: int

record queue_analytics_dict =
  current_queue_length :: int
  max_queue_length :: int
  average_queue_length :: rat
  average_wait_time :: int
  total_customers_served :: int
  queue_history :: "length_entry deque"

record staff_metrics_dict =
  current_staff_count :: int
  total_staff_hours :: int
  hygiene_compliance_rate :: int
  hand_washing_events :: int
  attendance_log :: "nat list"

record operational_kpis_dict =
  service_efficiency :: rat
  customer_satisfaction_score :: int
  peak_hours :: "nat list"
  busy_periods :: "nat list"
  alerts :: "alert list"

record kpis_dict =
  customer_flow :: customer_flow_dict
  vehicle_metrics :: vehicle_metrics_dict
  queue_analytics :: queue_analytics_dict
  staff_metrics :: staff_metrics_dict
  operational_kpis :: operational_kpis_dict

text \<open>\<^verbatim>\<open>self.historical_data\<close>, lines 66-71.\<close>

record historical_data =
  entries_per_hour :: "hour_entry deque"
  queue_lengths :: "length_entry deque"
  staff_counts :: "count_entry deque"
  vehicle_counts :: "count_entry deque"

text \<open>The analytics configuration as \<^verbatim>\<open>check_and_generate_alerts\<close> reads it:
  \<^verbatim>\<open>config.get('alert_thresholds', {}).get(key, default)\<close>.\<close>

record alert_thresholds =
  cfg_max_queue_length :: "int option"
  cfg_min_staff_count :: "int option"

record analytics_config =
  cfg_alert_thresholds :: "alert_thresholds option"

record kpi_processor =
  config :: analytics_config
  kpis :: kpis_dict
  historical :: historical_data

text \<open>\<^verbatim>\<open>KPIProcessor.__init__\<close>, lines 13-77.\<close>

definition init_kpis :: kpis_dict where
  "init_kpis =
     \<lparr>customer_flow =
        \<lparr>total_entries = 0, total_exits = 0, current_occupancy = 0, hourly_entries = [],
         peak_hour = None, average_dwell_time = 0\<rparr>,
      vehicle_metrics =
        \<lparr>total_vehicles = 0, current_vehicles = 0, hourly_arrivals = [],
         peak_parking_hour = None, parking_utilization = 0\<rparr>,
      queue_analytics =
        \<lparr>current_queue_length = 0, max_queue_length = 0, average_queue_length = 0,
         average_wait_time = 0, total_customers_served = 0,
         queue_history = \<lparr>maxlen = 100, items = []\<rparr>\<rparr>,
      staff_metrics =
        \<lparr>current_staff_count = 0, total_staff_hours = 0, hygiene_compliance_rate = 0,
         hand_washing_events = 0, attendance_log = []\<rparr>,
      operational_kpis =
        \<lparr>service_efficiency = 0, customer_satisfaction_score = 0, peak_hours = [],
         busy_periods = [], alerts = []\<rparr>\<rparr>"

definition init_processor :: "analytics_config \<Rightarrow> kpi_processor" where
  "init_processor analytics_config =
     \<lparr>config = analytics_config,
      kpis = init_kpis,
      historical =
        \<lparr>entries_per_hour = \<lparr>maxlen = 24, items = []\<rparr>,
         queue_lengths = \<lparr>maxlen = 1440, items = []\<rparr>,
         staff_counts = \<lparr>maxlen = 1440, items = []\<rparr>,
         vehicle_counts = \<lparr>maxlen = 1440, items = []\<rparr>\<rparr>\<rparr>"

subsection \<open>Reading the detection snapshots\<close>

text \<open>Python's \<^verbatim>\<open>not data\<close> on what \<^verbatim>\<open>detection_data.get(role)\<close> returns: \<^verbatim>\<open>None\<close> (no such
  key) and the empty list are falsy, a snapshot dict (it has keys) is truthy.\<close>

fun falsy :: "entry option \<Rightarrow> bool" where
  "falsy None = True"
| "falsy (Some EmptyList) = True"
| "falsy (Some _) = False"

text \<open>\<^verbatim>\<open>data.get(key, 0)\<close> on a snapshot dict: the value of the key, or 0 when the dict
  has no such key. The callers reach it only with a truthy value, so never with the
  empty list.\<close>

fun get_vehicle_count :: "entry \<Rightarrow> int" where
  "get_vehicle_count (Parking p) = vehicle_count p"
| "get_vehicle_count _ = 0"

fun get_queue_length :: "entry \<Rightarrow> int" where
  "get_queue_length (Queue q) = queue_length q"
| "get_queue_length _ = 0"

fun get_staff_count :: "entry \<Rightarrow> int" where
  "get_staff_count (Kitchen k) = staff_count k"
| "get_staff_count _ = 0"

subsection \<open>The per-family updates\<close>

text \<open>\<^verbatim>\<open>update_customer_flow_kpis\<close>, lines 130-161.\<close>

definition update_customer_flow_kpis ::
  "entry option \<Rightarrow> datetime \<Rightarrow> kpi_processor \<Rightarrow> kpi_processor" where
  "update_customer_flow_kpis gate_data current_time s =
     (if falsy gate_data then s
      else
        let hour = hour_of current_time;
            cf = customer_flow (kpis s);
            cf1 = cf\<lparr>peak_hour := peak_of (hourly_entries cf) (peak_hour cf)\<rparr>;
            (entries_this_hour, d) = getitem_default (hourly_entries cf1) hour;
            cf2 = cf1\<lparr>hourly_entries := d\<rparr>
        in s\<lparr>kpis := (kpis s)\<lparr>customer_flow := cf2\<rparr>,
             historical := (historical s)
               \<lparr>entries_per_hour :=
                  deque_append
                    \<lparr>entry_hour = hour, entry_entries = entries_this_hour,
                     hour_timestamp = current_time\<rparr>
                    (entries_per_hour (historical s))\<rparr>\<rparr>)"

text \<open>\<^verbatim>\<open>update_vehicle_kpis\<close>, lines 163-190.\<close>

definition update_vehicle_kpis ::
  "entry option \<Rightarrow> datetime \<Rightarrow> kpi_processor \<Rightarrow> kpi_processor" where
  "update_vehicle_kpis parking_data current_time s =
     (case parking_data of
        None \<Rightarrow> s
      | Some data \<Rightarrow>
          if falsy parking_data then s
          else
            let vm = vehicle_metrics (kpis s);
                vm1 = vm\<lparr>current_vehicles := get_vehicle_count data\<rparr>;
                vm2 = vm1\<lparr>peak_parking_hour :=
                            peak_of (hourly_arrivals vm1) (peak_parking_hour vm1)\<rparr>
            in s\<lparr>kpis := (kpis s)\<lparr>vehicle_metrics := vm2\<rparr>,
                 historical := (historical s)
                   \<lparr>vehicle_counts :=
                      deque_append
                        \<lparr>entry_count = current_vehicles vm2, count_timestamp = current_time\<rparr>
                        (vehicle_counts (historical s))\<rparr>\<rparr>)"

text \<open>\<^verbatim>\<open>update_queue_kpis\<close>, lines 192-224.\<close>

definition update_queue_kpis ::
  "entry option \<Rightarrow> datetime \<Rightarrow> kpi_processor \<Rightarrow> kpi_processor" where
  "update_queue_kpis queue_data current_time s =
     (case queue_data of
        None \<Rightarrow> s
      | Some data \<Rightarrow>
          if falsy queue_data then s
          else
            let current = get_queue_length data;
                qa = queue_analytics (kpis s);
                qa1 = qa\<lparr>current_queue_length := current\<rparr>;
                qa2 = qa1\<lparr>queue_history :=
                            deque_append
                              \<lparr>entry_length = current, length_timestamp = current_time\<rparr>
                              (queue_history qa1)\<rparr>;
                qa3 = (if current > max_queue_length qa2
                       then qa2\<lparr>max_queue_length := current\<rparr> else qa2);
                qa4 = (if items (queue_history qa3) \<noteq> []
                       then qa3\<lparr>average_queue_length :=
                                  round2 (mean (map entry_length (items (queue_history qa3))))\<rparr>
                       else qa3)
            in s\<lparr>kpis := (kpis s)\<lparr>queue_analytics := qa4\<rparr>,
                 historical := (historical s)
                   \<lparr>queue_lengths :=
                      deque_append
                        \<lparr>entry_length = current, length_timestamp = current_time\<rparr>
                        (queue_lengths (historical s))\<rparr>\<rparr>)"

text \<open>\<^verbatim>\<open>update_staff_kpis\<close>, lines 226-244.\<close>

definition update_staff_kpis ::
  "entry option \<Rightarrow> datetime \<Rightarrow> kpi_processor \<Rightarrow> kpi_processor" where
  "update_staff_kpis kitchen_data current_time s =
     (case kitchen_data of
        None \<Rightarrow> s
      | Some data \<Rightarrow>
          if falsy kitchen_data then s
          else
            let current_staff = get_staff_count data;
                sm = (staff_metrics (kpis s))\<lparr>current_staff_count := current_staff\<rparr>
            in s\<lparr>kpis := (kpis s)\<lparr>staff_metrics := sm\<rparr>,
                 historical := (historical s)
                   \<lparr>staff_counts :=
                      deque_append
                        \<lparr>entry_count = current_staff, count_timestamp = current_time\<rparr>
                        (staff_counts (historical s))\<rparr>\<rparr>)"

text \<open>\<^verbatim>\<open>update_operational_kpis\<close>, lines 246-269. The comparison
  \<^verbatim>\<open>entries > avg_entries * 1.5\<close> is made on exact rationals.\<close>

definition update_operational_kpis :: "datetime \<Rightarrow> kpi_processor \<Rightarrow> kpi_processor" where
  "update_operational_kpis current_time s =
     (let queue_length = average_queue_length (queue_analytics (kpis s));
          staff_count = current_staff_count (staff_metrics (kpis s));
          ok = operational_kpis (kpis s);
          ok1 = (if staff_count > 0 \<and> queue_length > 0
                 then ok\<lparr>service_efficiency := round2 (queue_length / of_int staff_count)\<rparr>
                 else ok);
          hourly = hourly_entries (customer_flow (kpis s));
          ok2 = (if hourly \<noteq> []
                 then
                   let avg_entries = mean (map snd hourly) in
                   ok1\<lparr>peak_hours :=
                         map fst (filter (\<lambda>(hour, entries). of_int entries > avg_entries * (3 / 2))
                                    hourly)\<rparr>
                 else ok1)
      in s\<lparr>kpis := (kpis s)\<lparr>operational_kpis := ok2\<rparr>\<rparr>)"

subsection \<open>Alerts\<close>

text \<open>The two thresholds, lines 277 and 289, with their defaults. They are integers, as
  the counts they are compared with are.\<close>

definition threshold_max_queue :: "analytics_config \<Rightarrow> int" where
  "threshold_max_queue c =
     (case cfg_alert_thresholds c of
        None \<Rightarrow> 10
      | Some t \<Rightarrow> (case cfg_max_queue_length t of None \<Rightarrow> 10 | Some v \<Rightarrow> v))"

definition threshold_min_staff :: "analytics_config \<Rightarrow> int" where
  "threshold_min_staff c =
     (case cfg_alert_thresholds c of
        None \<Rightarrow> 2
      | Some t \<Rightarrow> (case cfg_min_staff_count t of None \<Rightarrow> 2 | Some v \<Rightarrow> v))"

text \<open>The local list \<^verbatim>\<open>alerts\<close> of \<^verbatim>\<open>check_and_generate_alerts\<close>, lines 274-298.\<close>

definition new_alerts :: "datetime \<Rightarrow> kpi_processor \<Rightarrow> alert list" where
  "new_alerts current_time s =
     (let max_queue = threshold_max_queue (config s);
          current_queue = current_queue_length (queue_analytics (kpis s));
          alerts1 =
            (if current_queue > max_queue
             then [\<lparr>alert_type = ''queue_alert'',
                    message = ''Queue length ('' @ str_int current_queue @
                              '') exceeds threshold ('' @ str_int max_queue @ '')'',
                    severity = ''high'', alert_timestamp = current_time\<rparr>]
             else []);
          min_staff = threshold_min_staff (config s);
          current_staff = current_staff_count (staff_metrics (kpis s))
      in if current_staff < min_staff
         then alerts1 @
              [\<lparr>alert_type = ''staff_alert'',
                message = ''Staff count ('' @ str_int current_staff @
                          '') below minimum ('' @ str_int min_staff @ '')'',
                severity = ''medium'', alert_timestamp = current_time\<rparr>]
         else alerts1)"

text \<open>Python's slice \<^verbatim>\<open>xs[-100:]\<close>: the last 100 items, all of them when there are
  fewer.\<close>

definition last100 :: "'a list \<Rightarrow> 'a list" where
  "last100 xs = drop (length xs - 100) xs"

text \<open>\<^verbatim>\<open>check_and_generate_alerts\<close>, lines 271-309.\<close>

definition check_and_generate_alerts :: "datetime \<Rightarrow> kpi_processor \<Rightarrow> kpi_processor" where
  "check_and_generate_alerts current_time s =
     (let ok = operational_kpis (kpis s);
          extended = alerts ok @ new_alerts current_time s;
          ok1 = ok\<lparr>alerts := (if length extended > 100 then last100 extended else extended)\<rparr>
      in s\<lparr>kpis := (kpis s)\<lparr>operational_kpis := ok1\<rparr>\<rparr>)"

subsection \<open>One aggregation cycle\<close>

text \<open>\<^verbatim>\<open>process_kpis\<close>, lines 104-128. \<open>detection_data\<close> is what
  \<^verbatim>\<open>self.camera_manager.get_detection_data()\<close> returned and \<open>current_time\<close> the reading of
  \<^verbatim>\<open>datetime.now()\<close>; an empty dict is falsy.\<close>

definition process_kpis :: "detection_data \<Rightarrow> datetime \<Rightarrow> kpi_processor \<Rightarrow> kpi_processor" where
  "process_kpis detection_data current_time s =
     (if detection_data = [] then s
      else
        let s1 = update_customer_flow_kpis (map_of detection_data ''gate'') current_time s;
            s2 = update_vehicle_kpis (map_of detection_data ''parking'') current_time s1;
            s3 = update_queue_kpis (map_of detection_data ''queue'') current_time s2;
            s4 = update_staff_kpis (map_of detection_data ''kitchen'') current_time s3;
            s5 = update_operational_kpis current_time s4
        in check_and_generate_alerts current_time s5)"

text \<open>A run of queue updates, one per aggregation cycle, oldest first: the snapshot
  read in the cycle and the time of the cycle.\<close>

fun run_queue_updates :: "(entry option \<times> datetime) list \<Rightarrow> kpi_processor \<Rightarrow> kpi_processor" where
  "run_queue_updates [] s = s"
| "run_queue_updates ((queue_data, current_time) # rest) s =
     run_queue_updates rest (update_queue_kpis queue_data current_time s)"

text \<open>Successive alert evaluations at the given times with the KPIs otherwise
  untouched.\<close>

fun run_alert_checks :: "datetime list \<Rightarrow> kpi_processor \<Rightarrow> kpi_processor" where
  "run_alert_checks [] s = s"
| "run_alert_checks (current_time # rest) s =
     run_alert_checks rest (check_and_generate_alerts current_time s)"

subsection \<open>The KPI dicts as shared objects\<close>

text \<open>
  \<^verbatim>\<open>self.kpis\<close> is a dict whose five values are dicts. Every update above writes into
  one of the five nested dict objects (\<^verbatim>\<open>self.kpis[family][field] = v\<close>); none rebinds a
  key of the outer dict. \<^verbatim>\<open>get_current_kpis\<close> returns \<^verbatim>\<open>self.kpis.copy()\<close>: a new outer dict
  whose values are the same five objects. To see what a caller holding the returned
  dict observes, the objects live in a store, addressed by number, and an outer dict
  holds the addresses of its values.
\<close>

datatype obj =
  OuterDict "(string \<times> nat) list"
| CustomerFlow customer_flow_dict
| VehicleMetrics vehicle_metrics_dict
| QueueAnalytics queue_analytics_dict
| StaffMetrics staff_metrics_dict
| OperationalKpis operational_kpis_dict

type_synonym store = "nat \<rightharpoonup> obj"

record shared_processor =
  objects :: store
  self_kpis :: nat
  next_address :: nat
  shared_config :: analytics_config
  shared_historical :: historical_data

text \<open>The object a key of an outer dict refers to: \<^verbatim>\<open>d[key]\<close>.\<close>

definition deref :: "store \<Rightarrow> nat \<Rightarrow> string \<Rightarrow> obj option" where
  "deref h d key =
     (case h d of
        Some (OuterDict kvs) \<Rightarrow> (case map_of kvs key of None \<Rightarrow> None | Some a \<Rightarrow> h a)
      | _ \<Rightarrow> None)"

text \<open>The KPI values seen through the outer dict at address \<open>d\<close>; \<open>None\<close> when a key
  is missing or refers to an object of another shape.\<close>

definition view :: "store \<Rightarrow> nat \<Rightarrow> kpis_dict option" where
  "view h d =
     (case (deref h d ''customer_flow'', deref h d ''vehicle_metrics'',
            deref h d ''queue_analytics'', deref h d ''staff_metrics'',
            deref h d ''operational_kpis'') of
        (Some (CustomerFlow cf), Some (VehicleMetrics vm), Some (QueueAnalytics qa),
         Some (StaffMetrics sm), Some (OperationalKpis ok)) \<Rightarrow>
          Some \<lparr>customer_flow = cf, vehicle_metrics = vm, queue_analytics = qa,
                staff_metrics = sm, operational_kpis = ok\<rparr>
      | _ \<Rightarrow> None)"

text \<open>A write into the nested dict that \<open>key\<close> of the outer dict at \<open>d\<close> refers to:
  \<^verbatim>\<open>d[key][field] = v\<close>, with \<open>v\<close> already placed in the new contents \<open>x\<close>.\<close>

definition write_nested :: "nat \<Rightarrow> string \<Rightarrow> obj \<Rightarrow> store \<Rightarrow> store" where
  "write_nested d key x h =
     (case h d of
        Some (OuterDict kvs) \<Rightarrow> (case map_of kvs key of None \<Rightarrow> h | Some a \<Rightarrow> h(a \<mapsto> x))
      | _ \<Rightarrow> h)"

text \<open>All five nested dicts written in place through the outer dict at \<open>d\<close>.\<close>

definition write_kpis :: "nat \<Rightarrow> kpis_dict \<Rightarrow> store \<Rightarrow> store" where
  "write_kpis d k h =
     write_nested d ''operational_kpis'' (OperationalKpis (operational_kpis k))
       (write_nested d ''staff_metrics'' (StaffMetrics (staff_metrics k))
         (write_nested d ''queue_analytics'' (QueueAnalytics (queue_analytics k))
           (write_nested d ''vehicle_metrics'' (VehicleMetrics (vehicle_metrics k))
             (write_nested d ''customer_flow'' (CustomerFlow (customer_flow k)) h))))"

text \<open>\<^verbatim>\<open>KPIProcessor.__init__\<close> with its objects placed: the outer dict at address 0, the
  nested dicts at 1 to 5.\<close>

definition init_shared :: "analytics_config \<Rightarrow> shared_processor" where
  "init_shared analytics_config =
     \<lparr>objects =
        [0 \<mapsto> OuterDict [(''customer_flow'', 1), (''vehicle_metrics'', 2),
                          (''queue_analytics'', 3), (''staff_metrics'', 4),
                          (''operational_kpis'', 5)],
         1 \<mapsto> CustomerFlow (customer_flow init_kpis),
         2 \<mapsto> VehicleMetrics (vehicle_metrics init_kpis),
         3 \<mapsto> QueueAnalytics (queue_analytics init_kpis),
         4 \<mapsto> StaffMetrics (staff_metrics init_kpis),
         5 \<mapsto> OperationalKpis (operational_kpis init_kpis)],
      self_kpis = 0,
      next_address = 6,
      shared_config = analytics_config,
      shared_historical = historical (init_processor analytics_config)\<rparr>"

text \<open>A method of the processor run on the shared objects: it reads the KPI values
  through \<^verbatim>\<open>self.kpis\<close>, and its writes go into the nested dicts in place.\<close>

definition in_place :: "(kpi_processor \<Rightarrow> kpi_processor) \<Rightarrow> shared_processor \<Rightarrow> shared_processor" where
  "in_place method p =
     (case view (objects p) (self_kpis p) of
        None \<Rightarrow> p
      | Some k \<Rightarrow>
          let s = method \<lparr>config = shared_config p, kpis = k, historical = shared_historical p\<rparr>
          in p\<lparr>objects := write_kpis (self_kpis p) (kpis s) (objects p),
               shared_historical := historical s\<rparr>)"

text \<open>\<^verbatim>\<open>get_current_kpis\<close>, lines 311-313: \<^verbatim>\<open>dict.copy()\<close> makes a new outer dict with the
  items of \<^verbatim>\<open>self.kpis\<close>; the result is its address. (\<^verbatim>\<open>self.kpis\<close> is an outer dict from
  \<^verbatim>\<open>__init__\<close> on, so the last branch is never taken from \<^const>\<open>init_shared\<close>.)\<close>

definition get_current_kpis :: "shared_processor \<Rightarrow> nat \<times> shared_processor" where
  "get_current_kpis p =
     (case objects p (self_kpis p) of
        Some (OuterDict kvs) \<Rightarrow>
          (next_address p,
           p\<lparr>objects := (objects p)(next_address p \<mapsto> OuterDict kvs),
             next_address := Suc (next_address p)\<rparr>)
      | _ \<Rightarrow> (self_kpis p, p))"

subsection \<open>Sample inputs\<close>

text \<open>Snapshots as the workers publish them, a configuration without thresholds (the
  defaults 10 and 2 apply), and KPI states used to evaluate the functions above.\<close>

definition queue_seen :: "int \<Rightarrow> entry option" where
  "queue_seen n = Some (Queue \<lparr>queue_length = n, detections = [], queue_timestamp = 0\<rparr>)"

definition gate_seen :: "entry option" where
  "gate_seen = Some (Gate \<lparr>person_count = 0, gate_detections = [], gate_timestamp = 0\<rparr>)"

definition no_thresholds :: analytics_config where
  "no_thresholds = \<lparr>cfg_alert_thresholds = None\<rparr>"

text \<open>A fresh processor whose queue history ring has capacity 3.\<close>

definition ring3 :: kpi_processor where
  "ring3 =
     (init_processor no_thresholds)
       \<lparr>kpis := init_kpis
          \<lparr>queue_analytics :=
             (queue_analytics init_kpis)\<lparr>queue_history := \<lparr>maxlen = 3, items = []\<rparr>\<rparr>\<rparr>\<rparr>"

text \<open>A processor with the given rolling average, staff count and last efficiency.\<close>

definition sample_state :: "rat \<Rightarrow> int \<Rightarrow> rat \<Rightarrow> kpi_processor" where
  "sample_state average staff efficiency =
     (init_processor no_thresholds)
       \<lparr>kpis := init_kpis
          \<lparr>queue_analytics := (queue_analytics init_kpis)\<lparr>average_queue_length := average\<rparr>,
           staff_metrics := (staff_metrics init_kpis)\<lparr>current_staff_count := staff\<rparr>,
           operational_kpis := (operational_kpis init_kpis)\<lparr>service_efficiency := efficiency\<rparr>\<rparr>\<rparr>"

text \<open>A processor with the given thresholds, queue length and staff count.\<close>

definition busy_state :: "int \<Rightarrow> int \<Rightarrow> int \<Rightarrow> int \<Rightarrow> kpi_processor" where
  "busy_state max_queue min_staff queue staff =
     (init_processor
        \<lparr>cfg_alert_thresholds =
           Some \<lparr>cfg_max_queue_length = Some max_queue, cfg_min_staff_count = Some min_staff\<rparr>\<rparr>)
       \<lparr>kpis := init_kpis
          \<lparr>queue_analytics := (queue_analytics init_kpis)\<lparr>current_queue_length := queue\<rparr>,
           staff_metrics := (staff_metrics init_kpis)\<lparr>current_staff_count := staff\<rparr>\<rparr>\<rparr>"

text \<open>A processor holding 100 alerts, the oldest one first, with a queue of 11 and a
  staff of 5.\<close>

definition full_state :: kpi_processor where
  "full_state =
     (init_processor no_thresholds)
       \<lparr>kpis := init_kpis
          \<lparr>queue_analytics := (queue_analytics init_kpis)\<lparr>current_queue_length := 11\<rparr>,
           staff_metrics := (staff_metrics init_kpis)\<lparr>current_staff_count := 5\<rparr>,
           operational_kpis := (operational_kpis init_kpis)
             \<lparr>alerts :=
                \<lparr>alert_type = ''old'', message = ''oldest'', severity = ''low'',
                 alert_timestamp = 0\<rparr> #
                replicate 99
                  \<lparr>alert_type = ''old'', message = ''older'', severity = ''low'',
                   alert_timestamp = 1\<rparr>\<rparr>\<rparr>\<rparr>"

text \<open>The overlapping zones A and B of the specification's scenario, and a confident
  person whose bounding box has the center (5, 5).\<close>

definition zone_A :: zone where
  "zone_A = \<lparr>zone_name = ''A'', zone_x = 0, zone_y = 0, zone_width = 10, zone_height = 10\<rparr>"

definition zone_B :: zone where
  "zone_B = \<lparr>zone_name = ''B'', zone_x = 0, zone_y = 0, zone_width = 20, zone_height = 20\<rparr>"

definition person_at_5_5 :: box where
  "person_at_5_5 = \<lparr>box_cls = 0, box_conf = 9 / 10, box_xyxy = (4, 3, 6, 7)\<rparr>"

text \<open>What a holder of the outer dict at \<open>d\<close> reads as
  \<^verbatim>\<open>d['queue_analytics']['current_queue_length']\<close> and as
  \<^verbatim>\<open>d['staff_metrics']['current_staff_count']\<close>.\<close>

definition read_queue_length :: "store \<Rightarrow> nat \<Rightarrow> int option" where
  "read_queue_length h d = map_option (\<lambda>k. current_queue_length (queue_analytics k)) (view h d)"

definition read_staff_count :: "store \<Rightarrow> nat \<Rightarrow> int option" where
  "read_staff_count h d = map_option (\<lambda>k. current_staff_count (staff_metrics k)) (view h d)"

section \<open>Verified properties\<close>

subsection \<open>Zone classification\<close>

lemma zone_scan_find: "zone_scan zs x y = List.find (\<lambda>z. in_zone z x y) zs"
  by (induction zs) simp_all



subsection \<open>The queue worker's snapshot\<close>

lemma process_box_skip:
  "\<not> qualifies threshold zones b \<Longrightarrow> process_box clk threshold zones acc b = acc"
  by (auto simp: qualifies_def process_box_def classify_def center_of_def Let_def
           split: prod.splits option.splits)

lemma process_box_count:
  "qualifies threshold zones b \<Longrightarrow>
     acc_queue_length (process_box clk threshold zones acc b) = acc_queue_length acc + 1 \<and>
     map zone (acc_detections (process_box clk threshold zones acc b)) =
       map zone (acc_detections acc) @ [classify (center_of b) zones]"
  by (auto simp: qualifies_def process_box_def classify_def center_of_def Let_def
           split: prod.splits option.splits)

lemma boxes_loop:
  "acc_queue_length (foldl (process_box clk threshold zones) acc bs) =
     acc_queue_length acc + int (length (filter (qualifies threshold zones) bs)) \<and>
   map zone (acc_detections (foldl (process_box clk threshold zones) acc bs)) =
     map zone (acc_detections acc) @
     map (\<lambda>b. classify (center_of b) zones) (filter (qualifies threshold zones) bs)"
proof (induction bs arbitrary: acc)
  case Nil
  show ?case by simp
next
  case (Cons b bs)
  show ?case
  proof (cases "qualifies threshold zones b")
    case True
    with Cons [of "process_box clk threshold zones acc b"] process_box_count [OF True, of clk acc]
    show ?thesis by simp
  next
    case False
    with Cons [of acc] process_box_skip [OF False, of clk acc]
    show ?thesis by simp
  qed
qed

lemma results_loop:
  "acc_queue_length (foldl (process_result clk threshold zones) acc rs) =
     acc_queue_length acc + int (length (filter (qualifies threshold zones) (all_boxes rs))) \<and>
   map zone (acc_detections (foldl (process_result clk threshold zones) acc rs)) =
     map zone (acc_detections acc) @
     map (\<lambda>b. classify (center_of b) zones) (filter (qualifies threshold zones) (all_boxes rs))"
proof (induction rs arbitrary: acc)
  case Nil
  show ?case by (simp add: all_boxes_def)
next
  case (Cons r rs)
  have step: "all_boxes (r # rs) = (case boxes r of None \<Rightarrow> [] | Some bs \<Rightarrow> bs) @ all_boxes rs"
    by (simp add: all_boxes_def)
  show ?case
  proof (cases "boxes r")
    case None
    with Cons [of acc] step show ?thesis by (simp add: process_result_def)
  next
    case (Some bs)
    with Cons [of "foldl (process_box clk threshold zones) acc bs"]
      boxes_loop [of clk threshold zones acc bs] step
    show ?thesis by (simp add: process_result_def)
  qed
qed



subsection \<open>The shared detection store\<close>

lemma map_of_publish_all_other:
  "role \<notin> fst ` set ps \<Longrightarrow> map_of (publish_all ps dd) role = map_of dd role"
proof (induction ps arbitrary: dd)
  case Nil
  show ?case by simp
next
  case (Cons p ps)
  obtain r e where p: "p = (r, e)" by (cases p)
  from Cons.prems p have "r \<noteq> role" "role \<notin> fst ` set ps" by auto
  then show ?case using Cons.IH [of "publish r e dd"] p
    by (simp add: publish_def update_conv)
qed




subsection \<open>Alerts\<close>

lemma new_alerts_kinds:
  "map (\<lambda>a. (alert_type a, severity a)) (new_alerts t s) =
     (if current_queue_length (queue_analytics (kpis s)) > threshold_max_queue (config s)
      then [(''queue_alert'', ''high'')] else []) @
     (if current_staff_count (staff_metrics (kpis s)) < threshold_min_staff (config s)
      then [(''staff_alert'', ''medium'')] else [])"
  by (simp add: new_alerts_def Let_def)

lemma new_alerts_length: "length (new_alerts t s) \<le> 2"
  by (simp add: new_alerts_def Let_def)

lemma new_alerts_after_check:
  "new_alerts t' (check_and_generate_alerts t s) = new_alerts t' s"
  by (simp add: new_alerts_def check_and_generate_alerts_def Let_def)

lemma alerts_check_last100:
  "alerts (operational_kpis (kpis (check_and_generate_alerts t s))) =
     last100 (alerts (operational_kpis (kpis s)) @ new_alerts t s)"
  by (simp add: check_and_generate_alerts_def Let_def last100_def)

lemma last100_absorb: "last100 (last100 xs @ ys) = last100 (xs @ ys)"
proof (cases "length xs \<le> 100")
  case True
  then show ?thesis by (simp add: last100_def)
next
  case False
  then have "length (drop (length xs - 100) xs) = 100" by simp
  then show ?thesis using False
    by (cases "length ys \<le> 100") (simp_all add: last100_def add.commute)
qed

lemma alerts_after_run:
  "alerts (operational_kpis (kpis (run_alert_checks ts (check_and_generate_alerts t s)))) =
     last100 (alerts (operational_kpis (kpis s)) @ new_alerts t s @
              concat (map (\<lambda>t'. new_alerts t' s) ts))"
proof (induction ts arbitrary: s t)
  case Nil
  show ?case by (simp add: alerts_check_last100)
next
  case (Cons u ts)
  have "alerts (operational_kpis (kpis (run_alert_checks (u # ts) (check_and_generate_alerts t s)))) =
      last100 (last100 (alerts (operational_kpis (kpis s)) @ new_alerts t s) @
               new_alerts u s @ concat (map (\<lambda>t'. new_alerts t' s) ts))"
    using Cons [of u "check_and_generate_alerts t s"]
    by (simp add: new_alerts_after_check alerts_check_last100)
  then show ?case by (simp add: last100_absorb)
qed

text \<open>
  C5. After every alert evaluation the alert list has at most 100 entries, and it is
  the list before the evaluation followed by the alerts just generated, with as many
  entries removed from the front (the oldest) as exceed 100: the retained entries are
  the most recent ones, in their order.
\<close>

theorem alerts_bounded_fifo:
  "length (alerts (operational_kpis (kpis (check_and_generate_alerts t s)))) \<le> 100 \<and>
   alerts (operational_kpis (kpis (check_and_generate_alerts t s))) =
     drop (length (alerts (operational_kpis (kpis s)) @ new_alerts t s) - 100)
          (alerts (operational_kpis (kpis s)) @ new_alerts t s)"
proof -
  let ?ext = "alerts (operational_kpis (kpis s)) @ new_alerts t s"
  have res: "alerts (operational_kpis (kpis (check_and_generate_alerts t s))) =
      (if length ?ext > 100 then drop (length ?ext - 100) ?ext else ?ext)"
    by (simp add: check_and_generate_alerts_def Let_def last100_def)
  show ?thesis
  proof (cases "length ?ext > 100")
    case True
    have "length (drop (length ?ext - 100) ?ext) \<le> 100" by simp
    with True res show ?thesis by simp
  next
    case False
    then have "length ?ext - 100 = 0" by simp
    with False res show ?thesis by simp
  qed
qed

text \<open>A full list of 100 alerts and a queue above the default threshold: the oldest
  alert leaves, the other 99 stay in order, the new alert is last.\<close>

theorem alerts_bounded_fifo_witness:
  "map message (alerts (operational_kpis (kpis (check_and_generate_alerts 2 full_state)))) =
     replicate 99 ''older'' @ [''Queue length (11) exceeds threshold (10)'']"
  using alerts_bounded_fifo [of 2 full_state]
  by (simp add: new_alerts_def full_state_def init_processor_def init_kpis_def Let_def
      threshold_max_queue_def threshold_min_staff_def no_thresholds_def str_int_def
      str_nat.simps)



subsection \<open>Queue statistics\<close>

lemma floor_rat_numeral_div:
  "\<lfloor>(numeral a :: rat) / numeral b\<rfloor> = numeral a div numeral b"
  using floor_divide_of_int_eq [of "numeral a" "numeral b", where ?'a = rat] by simp

lemma rint_near: "\<bar>of_int (rint q) - q\<bar> \<le> 1 / 2"
proof -
  have "of_int \<lfloor>q\<rfloor> \<le> q" "q < of_int \<lfloor>q\<rfloor> + 1" by linarith+
  then show ?thesis by (auto simp: rint_def Let_def)
qed

lemma round2_near: "\<bar>round2 q - q\<bar> \<le> 1 / 200"
proof -
  have "\<bar>of_int (rint (q * 100)) - q * 100\<bar> \<le> 1 / 2" by (rule rint_near)
  then show ?thesis by (simp add: round2_def abs_le_iff field_simps)
qed

lemma update_queue_truthy:
  "update_queue_kpis (Some (Queue \<lparr>queue_length = n, detections = [], queue_timestamp = 0\<rparr>)) t s =
     (let qa = queue_analytics (kpis s);
          h = deque_append \<lparr>entry_length = n, length_timestamp = t\<rparr> (queue_history qa)
      in s\<lparr>kpis := (kpis s)\<lparr>queue_analytics :=
              qa\<lparr>current_queue_length := n,
                 queue_history := h,
                 max_queue_length := (if n > max_queue_length qa then n else max_queue_length qa),
                 average_queue_length :=
                   (if items h \<noteq> [] then round2 (mean (map entry_length (items h)))
                    else average_queue_length qa)\<rparr>\<rparr>,
            historical := (historical s)
              \<lparr>queue_lengths :=
                 deque_append \<lparr>entry_length = n, length_timestamp = t\<rparr>
                   (queue_lengths (historical s))\<rparr>\<rparr>)"
  by (simp add: update_queue_kpis_def Let_def)

lemma update_queue_max_mono:
  "max_queue_length (queue_analytics (kpis s)) \<le>
     max_queue_length (queue_analytics (kpis (update_queue_kpis qd t s)))"
  by (simp add: update_queue_kpis_def Let_def split: option.splits)

lemma update_queue_max_ge_current:
  "current_queue_length (queue_analytics (kpis s)) \<le> max_queue_length (queue_analytics (kpis s)) \<Longrightarrow>
   current_queue_length (queue_analytics (kpis (update_queue_kpis qd t s))) \<le>
     max_queue_length (queue_analytics (kpis (update_queue_kpis qd t s)))"
  by (simp add: update_queue_kpis_def Let_def split: option.splits)

lemma run_max_mono:
  "max_queue_length (queue_analytics (kpis s)) \<le>
     max_queue_length (queue_analytics (kpis (run_queue_updates ups s)))"
proof (induction ups arbitrary: s)
  case Nil
  show ?case by simp
next
  case (Cons u ups)
  obtain qd t where u: "u = (qd, t)" by (cases u)
  have "max_queue_length (queue_analytics (kpis s)) \<le>
     max_queue_length (queue_analytics (kpis (update_queue_kpis qd t s)))"
    by (rule update_queue_max_mono)
  also have "\<dots> \<le> max_queue_length (queue_analytics (kpis
      (run_queue_updates ups (update_queue_kpis qd t s))))"
    by (rule Cons.IH)
  finally show ?case using u by simp
qed

lemma run_append:
  "run_queue_updates (ups @ later) s = run_queue_updates later (run_queue_updates ups s)"
  by (induction ups arbitrary: s) auto

lemma run_max_ge_current:
  "current_queue_length (queue_analytics (kpis s)) \<le> max_queue_length (queue_analytics (kpis s)) \<Longrightarrow>
   current_queue_length (queue_analytics (kpis (run_queue_updates ups s))) \<le>
     max_queue_length (queue_analytics (kpis (run_queue_updates ups s)))"
proof (induction ups arbitrary: s)
  case Nil
  then show ?case by simp
next
  case (Cons u ups)
  obtain qd t where u: "u = (qd, t)" by (cases u)
  show ?case using Cons.IH [OF update_queue_max_ge_current [OF Cons.prems, of qd t]] u by simp
qed

lemma queue_analytics_other_updates:
  "queue_analytics (kpis (update_customer_flow_kpis gd t s)) = queue_analytics (kpis s)"
  "queue_analytics (kpis (update_vehicle_kpis pd t s)) = queue_analytics (kpis s)"
  "queue_analytics (kpis (update_staff_kpis kd t s)) = queue_analytics (kpis s)"
  "queue_analytics (kpis (update_operational_kpis t s)) = queue_analytics (kpis s)"
  "queue_analytics (kpis (check_and_generate_alerts t s)) = queue_analytics (kpis s)"
  by (simp_all add: update_customer_flow_kpis_def update_vehicle_kpis_def update_staff_kpis_def
      update_operational_kpis_def check_and_generate_alerts_def Let_def
      split: option.splits prod.splits)

text \<open>
  C7. Over every sequence of queue updates from the initial state, \<open>max_queue_length\<close>
  never decreases: its value after any prefix of the sequence is at most its value
  after the whole sequence. After each update of the sequence it is at least
  \<open>current_queue_length\<close>. A whole aggregation cycle does not decrease it either,
  from any state.
\<close>

theorem max_queue_length_monotone:
  "max_queue_length (queue_analytics (kpis (run_queue_updates ups (init_processor c)))) \<le>
     max_queue_length (queue_analytics (kpis (run_queue_updates (ups @ later) (init_processor c)))) \<and>
   current_queue_length (queue_analytics (kpis (run_queue_updates ups (init_processor c)))) \<le>
     max_queue_length (queue_analytics (kpis (run_queue_updates ups (init_processor c)))) \<and>
   max_queue_length (queue_analytics (kpis s)) \<le>
     max_queue_length (queue_analytics (kpis (process_kpis dd t s)))"
proof -
  have start: "current_queue_length (queue_analytics (kpis (init_processor c))) \<le>
      max_queue_length (queue_analytics (kpis (init_processor c)))"
    by (simp add: init_processor_def init_kpis_def)
  have cycle: "max_queue_length (queue_analytics (kpis s)) \<le>
     max_queue_length (queue_analytics (kpis (process_kpis dd t s)))"
    using update_queue_max_mono
      [of "update_vehicle_kpis (map_of dd ''parking'') t
             (update_customer_flow_kpis (map_of dd ''gate'') t s)" "map_of dd ''queue''" t]
    by (simp add: process_kpis_def Let_def queue_analytics_other_updates)
  show ?thesis
    using run_max_ge_current [OF start, of ups]
      run_max_mono [of "run_queue_updates ups (init_processor c)" later] cycle
    by (simp add: run_append)
qed



lemma ring3_after_three:
  "queue_history (queue_analytics (kpis
     (run_queue_updates [(queue_seen 2, 1), (queue_seen 4, 2), (queue_seen 6, 3)] ring3))) =
   \<lparr>maxlen = 3, items = [\<lparr>entry_length = 2, length_timestamp = 1\<rparr>,
      \<lparr>entry_length = 4, length_timestamp = 2\<rparr>, \<lparr>entry_length = 6, length_timestamp = 3\<rparr>]\<rparr>"
  by (simp add: queue_seen_def update_queue_truthy ring3_def init_processor_def init_kpis_def
      deque_append_def Let_def)


subsection \<open>Service efficiency\<close>




subsection \<open>Peak hour\<close>

lemma max_loop_split:
  "\<exists>pre h v post. (m, mv) # rest = pre @ (h, v) # post \<and> max_loop (m, mv) rest = h \<and>
     (\<forall>(k, w)\<in>set pre. w < v) \<and> (\<forall>(k, w)\<in>set post. w \<le> v)"
proof (induction rest arbitrary: m mv)
  case Nil
  have "[(m, mv)] = [] @ (m, mv) # [] \<and> max_loop (m, mv) [] = m \<and>
     (\<forall>(k, w)\<in>set []. w < mv) \<and> (\<forall>(k, w)\<in>set []. w \<le> mv)" by simp
  then show ?case by (intro exI)
next
  case (Cons x rest)
  obtain item val where x: "x = (item, val)" by (cases x)
  show ?case
  proof (cases "val > mv")
    case True
    from Cons.IH [of item val] obtain pre h v post where
      sp: "(item, val) # rest = pre @ (h, v) # post" and res: "max_loop (item, val) rest = h"
      and lt: "\<forall>(k, w)\<in>set pre. w < v" and le: "\<forall>(k, w)\<in>set post. w \<le> v" by blast
    have "(item, val) \<in> set (pre @ (h, v) # post)" using sp by (metis list.set_intros(1))
    then have "val \<le> v" using lt le by auto
    then have "mv < v" using True by simp
    have e1: "(m, mv) # x # rest = ((m, mv) # pre) @ (h, v) # post" using sp x by simp
    have e2: "max_loop (m, mv) (x # rest) = h" using res True x by simp
    have e3: "\<forall>(k, w)\<in>set ((m, mv) # pre). w < v" using lt \<open>mv < v\<close> by simp
    from e1 e2 e3 le show ?thesis by blast
  next
    case False
    from Cons.IH [of m mv] obtain pre h v post where
      sp: "(m, mv) # rest = pre @ (h, v) # post" and res: "max_loop (m, mv) rest = h"
      and lt: "\<forall>(k, w)\<in>set pre. w < v" and le: "\<forall>(k, w)\<in>set post. w \<le> v" by blast
    have valmv: "val \<le> mv" using False by simp
    have e2: "max_loop (m, mv) (x # rest) = h" using res False x by simp
    show ?thesis
    proof (cases pre)
      case Nil
      then have hv: "h = m" "v = mv" "post = rest" using sp by simp_all
      have e1: "(m, mv) # x # rest = [] @ (h, v) # (x # post)" using hv by simp
      have e3: "\<forall>(k, w)\<in>set []. w < v" by simp
      have e4: "\<forall>(k, w)\<in>set (x # post). w \<le> v" using le valmv x hv by simp
      from e1 e2 e3 e4 show ?thesis by blast
    next
      case (Cons y pre')
      then have y: "y = (m, mv)" and rest: "rest = pre' @ (h, v) # post" using sp by simp_all
      have "mv < v" using lt Cons y by simp
      then have "val < v" using valmv by simp
      have lt': "\<forall>(k, w)\<in>set pre'. w < v" using lt Cons by simp
      have e1: "(m, mv) # x # rest = ((m, mv) # x # pre') @ (h, v) # post" using rest by simp
      have e3: "\<forall>(k, w)\<in>set ((m, mv) # x # pre'). w < v"
        using lt' x \<open>mv < v\<close> \<open>val < v\<close> by simp
      from e1 e2 e3 le show ?thesis by blast
    qed
  qed
qed

text \<open>
  C4, as the specification states it, fails on ties. A processor started in the hour
  22 and run past midnight has read the hours 22, 23 and 0 of its histogram, in this
  order, which is the order of the dict's keys. All counts are 0, and the peak hour
  is 22, the hour inserted first, not 0, the lowest hour with the maximum count.
\<close>

theorem peak_hour_tie_counterexample:
  "hourly_entries (customer_flow (kpis
     (update_customer_flow_kpis gate_seen 86405
       (update_customer_flow_kpis gate_seen 86400
         (update_customer_flow_kpis gate_seen 82800
           (update_customer_flow_kpis gate_seen 79200 (init_processor no_thresholds))))))) =
     [(22, 0), (23, 0), (0, 0)] \<and>
   peak_hour (customer_flow (kpis
     (update_customer_flow_kpis gate_seen 86405
       (update_customer_flow_kpis gate_seen 86400
         (update_customer_flow_kpis gate_seen 82800
           (update_customer_flow_kpis gate_seen 79200 (init_processor no_thresholds))))))) = Some 22"
  by (simp add: update_customer_flow_kpis_def gate_seen_def init_processor_def init_kpis_def
      hour_of_def getitem_default_def peak_of_def deque_append_def Let_def)

text \<open>
  C4, amended. For every non-empty hourly histogram, the computed peak hour is a key
  with the maximum entry count, and when several hours tie for the maximum, the one
  that comes first in the histogram's iteration order (the order in which the hours
  were inserted) is chosen: every item before it has a strictly smaller count, every
  item after it a count that is not greater. When the hours were inserted in
  ascending order, this is the lowest hour with the maximum count.
\<close>

theorem peak_hour_first_maximum:
  assumes "d \<noteq> []"
  shows "\<exists>pre h v post. d = pre @ (h, v) # post \<and> peak_of d previous = Some h \<and>
     (\<forall>(k, w)\<in>set pre. w < v) \<and> (\<forall>(k, w)\<in>set post. w \<le> v) \<and>
     (sorted (map fst d) \<longrightarrow> (\<forall>(k, w)\<in>set d. w = v \<longrightarrow> h \<le> k))"
proof -
  from assms obtain m mv rest where d: "d = (m, mv) # rest" by (cases d) auto
  from max_loop_split [of m mv rest] obtain pre h v post where
      sp: "(m, mv) # rest = pre @ (h, v) # post" and res: "max_loop (m, mv) rest = h"
      and lt: "\<forall>(k, w)\<in>set pre. w < v" and le: "\<forall>(k, w)\<in>set post. w \<le> v" by blast
  have pk: "peak_of d previous = Some h" using d res by (simp add: peak_of_def)
  have low: "sorted (map fst d) \<longrightarrow> (\<forall>(k, w)\<in>set d. w = v \<longrightarrow> h \<le> k)"
  proof
    assume "sorted (map fst d)"
    then have "sorted (map fst pre @ h # map fst post)" using d sp by simp
    then have "\<forall>k\<in>set (map fst post). h \<le> k" by (simp add: sorted_append)
    then have "\<forall>(k, w)\<in>set post. h \<le> k" by auto
    then show "\<forall>(k, w)\<in>set d. w = v \<longrightarrow> h \<le> k" using d sp lt by auto
  qed
  have "d = pre @ (h, v) # post" using d sp by simp
  then have "d = pre @ (h, v) # post \<and> peak_of d previous = Some h \<and>
     (\<forall>(k, w)\<in>set pre. w < v) \<and> (\<forall>(k, w)\<in>set post. w \<le> v) \<and>
     (sorted (map fst d) \<longrightarrow> (\<forall>(k, w)\<in>set d. w = v \<longrightarrow> h \<le> k))"
    using pk lt le low by simp
  then show ?thesis by (intro exI)
qed

text \<open>A histogram filled in ascending order with a tie between the hours 9 and 12:
  the peak is 9.\<close>

theorem peak_hour_first_maximum_witness:
  "peak_of [(8, 3), (9, 7), (12, 7), (13, 1)] None = Some 9"
proof -
  have ne: "[(8, 3), (9, 7), (12, 7), (13, 1)] \<noteq> ([] :: histogram)" by simp
  from peak_hour_first_maximum [OF ne, of None] obtain pre h v post where
    sp: "[(8, 3), (9, 7), (12, 7), (13, 1)] = pre @ (h, v) # post"
    and pk: "peak_of [(8, 3), (9, 7), (12, 7), (13, 1)] None = Some h"
    and lt: "\<forall>(k, w)\<in>set pre. w < v" and le: "\<forall>(k, w)\<in>set post. w \<le> (v :: int)"
    by blast
  have "peak_of [(8, 3), (9, 7), (12, 7), (13, 1)] None = Some 9"
    by (simp add: peak_of_def)
  then show ?thesis using pk by simp
qed

subsection \<open>What a caller of \<open>get_current_kpis\<close> holds\<close>

text \<open>
  C9 does not hold of the code. \<open>get_current_kpis\<close> returns a new outer dict (address
  6, while \<^verbatim>\<open>self.kpis\<close> stays at address 0) whose values are the processor's own nested
  dicts. A caller that took the copy of a fresh processor reads the queue length 0
  through it; after the processor's next queue update with a queue of 5 the same
  copy reads 5. And a caller's write of a staff count of 9 through the copy is read
  back through \<^verbatim>\<open>self.kpis\<close>.
\<close>

theorem get_current_kpis_shares_nested_dicts:
  "fst (get_current_kpis (init_shared no_thresholds)) = 6 \<and>
   self_kpis (snd (get_current_kpis (init_shared no_thresholds))) = 0 \<and>
   read_queue_length (objects (snd (get_current_kpis (init_shared no_thresholds)))) 6 = Some 0 \<and>
   read_queue_length
     (objects (in_place (update_queue_kpis (queue_seen 5) 1)
        (snd (get_current_kpis (init_shared no_thresholds))))) 6 = Some 5 \<and>
   read_staff_count (objects (snd (get_current_kpis (init_shared no_thresholds)))) 0 = Some 0 \<and>
   read_staff_count
     (write_nested 6 ''staff_metrics''
        (StaffMetrics ((staff_metrics init_kpis)\<lparr>current_staff_count := 9\<rparr>))
        (objects (snd (get_current_kpis (init_shared no_thresholds))))) 0 = Some 9"
  by (simp add: get_current_kpis_def init_shared_def read_queue_length_def read_staff_count_def
      view_def deref_def in_place_def write_kpis_def write_nested_def queue_seen_def
      update_queue_truthy init_kpis_def init_processor_def deque_append_def Let_def)

end
